theory Spec2Isabelle
  imports Complex_Main "HOL-Library.Sublist" "HOL-Library.AList"
begin

section \<open>The signaling relay of server.js\<close>

text \<open>
  The relay keeps one map of websocket connections and reacts to three events: a new
  connection, a message on a connection, and the close of a connection. Each handler is
  embedded as a function on the server's state. The state carries a trace of the calls the
  handlers make on the registry and on the sockets, in program order, so that what was sent
  to whom, and in which order, is a property of the state.
\<close>

subsection \<open>Values\<close>

text \<open>
  A message is JSON text. \<open>JSON.parse\<close> and \<open>JSON.stringify\<close> belong to the platform:
  the handlers below take the value \<open>JSON.parse\<close> returns and hand over the value given to
  \<open>JSON.stringify\<close>. An object is the list of its properties in insertion order. A string is
  the list of its UTF-8 bytes, the form in which it arrives and leaves. A number is a
  double; the relay only ever tests a number for being zero.
\<close>

datatype json =
    JNull
  | JBool bool
  | JNum rat
  | JStr string
  | JArr "json list"
  | JObj "(string \<times> json) list"

text \<open>JavaScript's \<open>undefined\<close> is \<open>None\<close> of \<open>json option\<close>.\<close>

type_synonym jsval = "json option"

datatype exn = TypeError

text \<open>
  \<open>data.k\<close> for the three property names the handler reads (\<open>id\<close>, \<open>type\<close>, \<open>sdp\<close>):
  reading a property of \<open>null\<close> throws, an object answers with its own property, and a
  number, boolean, string or array has no property of these names.
\<close>

fun get_field :: "json \<Rightarrow> string \<Rightarrow> exn + jsval" where
  "get_field JNull k = Inl TypeError"
| "get_field (JObj kvs) k = Inr (map_of kvs k)"
| "get_field v k = Inr None"

text \<open>
  \<open>data.k = v\<close>: an existing property keeps its place, a new one is added at the end;
  on a primitive the assignment is dropped (the file is not in strict mode).
\<close>

fun set_field :: "json \<Rightarrow> string \<Rightarrow> json \<Rightarrow> json" where
  "set_field (JObj kvs) k v = JObj (AList.update k v kvs)"
| "set_field d k v = d"


text \<open>\<open>!x\<close> is \<open>\<not> truthy x\<close>.\<close>

fun truthy :: "jsval \<Rightarrow> bool" where
  "truthy None = False"
| "truthy (Some JNull) = False"
| "truthy (Some (JBool b)) = b"
| "truthy (Some (JNum n)) = (n \<noteq> 0)"
| "truthy (Some (JStr s)) = (s \<noteq> [])"
| "truthy (Some (JArr vs)) = True"
| "truthy (Some (JObj kvs)) = True"

subsection \<open>Strings\<close>

definition LF :: string where
  "LF = [CHR 0x0A]"

definition CRLF :: string where
  "CRLF = [CHR 0x0D, CHR 0x0A]"

text \<open>
  \<open>s.replace(pat, rep)\<close> with a string pattern: the first occurrence of \<open>pat\<close> is replaced.
  The handler's replacement is always the empty string, so the \<open>$\<close> patterns of a
  replacement string play no role.
\<close>

fun replace :: "string \<Rightarrow> string \<Rightarrow> string \<Rightarrow> string" where
  "replace [] pat rep = (if pat = [] then rep else [])"
| "replace (c # cs) pat rep =
     (if prefix pat (c # cs) then rep @ drop (length pat) (c # cs)
      else c # replace cs pat rep)"

subsection \<open>The sdp package\<close>

text \<open>
  \<open>SDPUtils\<close> is the \<open>sdp\<close> package, a dependency whose code is not part of the
  repository. The handler is embedded over any implementation of the four functions it
  calls; each may throw. Of the object \<open>parseExtmap\<close> returns the handler reads \<open>uri\<close> only.
\<close>

record extmap =
  uri :: jsval

record sdputils =
  splitSections :: "jsval \<Rightarrow> exn + string list"
  getKind :: "string \<Rightarrow> exn + string"
  matchPrefix :: "string \<Rightarrow> string \<Rightarrow> exn + string list"
  parseExtmap :: "string \<Rightarrow> exn + extmap"

subsection \<open>The server's state\<close>

type_synonym ws = nat

datatype effect =
    MapSet string ws
  | MapDelete string
  | WsSend ws json
  | WsClose ws
  | WsTerminate ws

text \<open>
  \<open>connections\<close> is the map of websocket connections; \<open>listeners\<close> records, for each
  socket whose \<open>close\<close> and \<open>message\<close> handlers have been installed, the id these closures
  hold; \<open>trace\<close> is the list of calls made so far.
\<close>

record server =
  connections :: "string \<rightharpoonup> ws"
  listeners :: "ws \<rightharpoonup> string"
  trace :: "effect list"

definition connections_set :: "string \<Rightarrow> ws \<Rightarrow> server \<Rightarrow> server" where
  "connections_set cid w st =
     st\<lparr>connections := (connections st)(cid \<mapsto> w), trace := trace st @ [MapSet cid w]\<rparr>"

definition connections_delete :: "string \<Rightarrow> server \<Rightarrow> server" where
  "connections_delete cid st =
     st\<lparr>connections := (connections st)(cid := None), trace := trace st @ [MapDelete cid]\<rparr>"

text \<open>\<open>ws.send(JSON.stringify(v))\<close>.\<close>

definition ws_send :: "ws \<Rightarrow> json \<Rightarrow> server \<Rightarrow> server" where
  "ws_send w v st = st\<lparr>trace := trace st @ [WsSend w v]\<rparr>"

text \<open>\<open>ws.close()\<close> starts the closing handshake of the websocket.\<close>

definition ws_close :: "ws \<Rightarrow> server \<Rightarrow> server" where
  "ws_close w st = st\<lparr>trace := trace st @ [WsClose w]\<rparr>"

text \<open>\<open>ws.terminate()\<close> destroys the socket at once, with no closing handshake.\<close>

definition ws_terminate :: "ws \<Rightarrow> server \<Rightarrow> server" where
  "ws_terminate w st = st\<lparr>trace := trace st @ [WsTerminate w]\<rparr>"

text \<open>The messages sent to the socket \<open>w\<close>, in the order of the calls.\<close>

fun sent_to :: "ws \<Rightarrow> effect list \<Rightarrow> json list" where
  "sent_to w [] = []"
| "sent_to w (WsSend w' v # es) = (if w' = w then v # sent_to w es else sent_to w es)"
| "sent_to w (e # es) = sent_to w es"

definition install_listeners :: "ws \<Rightarrow> string \<Rightarrow> server \<Rightarrow> server" where
  "install_listeners w cid st = st\<lparr>listeners := (listeners st)(w \<mapsto> cid)\<rparr>"

subsection \<open>A new connection\<close>

definition hello :: "string \<Rightarrow> json" where
  "hello cid = JObj [(''type'', JStr ''hello''), (''id'', JStr cid)]"

definition iceServers :: json where
  "iceServers =
     JObj [(''type'', JStr ''iceServers''),
           (''iceServers'', JArr [JObj [(''urls'', JStr ''stun:stun.l.google.com:19302'')]])]"

text \<open>
  \<open>wss.on('connection', ...)\<close>. The id is what \<open>generateClientId()\<close>, that is
  \<open>uuid.v4()\<close>, returned for this connection.
\<close>

definition on_connection :: "string \<Rightarrow> ws \<Rightarrow> server \<Rightarrow> server" where
  "on_connection cid w st =
     (if connections st cid \<noteq> None then ws_close w st
      else install_listeners w cid
             (ws_send w iceServers (ws_send w (hello cid) (connections_set cid w st))))"

subsection \<open>The close of a connection\<close>

definition on_close :: "string \<Rightarrow> server \<Rightarrow> server" where
  "on_close cid st = connections_delete cid st"

subsection \<open>A message\<close>

definition extensionsToFilter :: "string list" where
  "extensionsToFilter =
     [''http://tools.ietf.org/html/draft-ietf-avtext-framemarking-07'',
      ''http://www.webrtc.org/experiments/rtp-hdrext/video-timing'']"

text \<open>
  The two ways in which the inspection of an offer ends early: a media section of a kind
  other than audio and video, and an exception caught by the \<open>catch\<close> clause.
\<close>

datatype abort = UnknownMedia string | Caught exn

text \<open>
  \<open>data.sdp = data.sdp.replace(line + '\r\n', ''); data.sdp = data.sdp.replace(line + '\n', '')\<close>.
  Both replacements run. A \<open>data.sdp\<close> that is not a string has no \<open>replace\<close> method.
\<close>

definition remove_line :: "string \<Rightarrow> json \<Rightarrow> exn + json" where
  "remove_line line data =
     (case get_field data ''sdp'' of
        Inr (Some (JStr s)) \<Rightarrow>
          (let data1 = set_field data ''sdp'' (JStr (replace s (line @ CRLF) ''''))
           in case get_field data1 ''sdp'' of
                Inr (Some (JStr s1)) \<Rightarrow>
                  Inr (set_field data1 ''sdp'' (JStr (replace s1 (line @ LF) '''')))
              | _ \<Rightarrow> Inl TypeError)
      | _ \<Rightarrow> Inl TypeError)"

text \<open>
  \<open>xs.includes(v)\<close> on an array of strings: \<open>v\<close> is one of them; \<open>undefined\<close> and the
  values that are not strings are not.
\<close>

definition array_includes :: "string list \<Rightarrow> jsval \<Rightarrow> bool" where
  "array_includes xs v = (v \<in> set (map (\<lambda>x. Some (JStr x)) xs))"

text \<open>\<open>extensions.forEach(line => ...)\<close>.\<close>

fun forEach_extension :: "sdputils \<Rightarrow> string list \<Rightarrow> json \<Rightarrow> exn + json" where
  "forEach_extension U [] data = Inr data"
| "forEach_extension U (line # lines) data =
     (case parseExtmap U line of
        Inl e \<Rightarrow> Inl e
      | Inr extension \<Rightarrow>
          if array_includes extensionsToFilter (uri extension)
          then (case remove_line line data of
                  Inl e \<Rightarrow> Inl e
                | Inr data' \<Rightarrow> forEach_extension U lines data')
          else forEach_extension U lines data)"

text \<open>The \<open>for\<close> loop over the media sections.\<close>

fun inspect_sections :: "sdputils \<Rightarrow> string list \<Rightarrow> json \<Rightarrow> abort + json" where
  "inspect_sections U [] data = Inr data"
| "inspect_sections U (section # sections) data =
     (case getKind U section of
        Inl e \<Rightarrow> Inl (Caught e)
      | Inr kind \<Rightarrow>
          if kind \<notin> set [''audio'', ''video''] then Inl (UnknownMedia kind)
          else (case matchPrefix U section ''a=extmap:'' of
                  Inl e \<Rightarrow> Inl (Caught e)
                | Inr extensions \<Rightarrow>
                    (case forEach_extension U extensions data of
                       Inl e \<Rightarrow> Inl (Caught e)
                     | Inr data' \<Rightarrow> inspect_sections U sections data')))"

text \<open>
  The body of \<open>if (data.type === 'offer') { try { ... } catch ... }\<close>;
  \<open>sections.shift()\<close> drops the session part.
\<close>

definition inspect_offer :: "sdputils \<Rightarrow> json \<Rightarrow> abort + json" where
  "inspect_offer U data =
     (case get_field data ''sdp'' of
        Inl e \<Rightarrow> Inl (Caught e)
      | Inr sdp \<Rightarrow>
          (case splitSections U sdp of
             Inl e \<Rightarrow> Inl (Caught e)
           | Inr sections \<Rightarrow> inspect_sections U (tl sections) data))"

text \<open>
  The lookup of the peer and the forwarding. The keys of \<open>connections\<close> are the strings
  \<open>generateClientId\<close> returned, so \<open>connections.has(data.id)\<close> is false for a \<open>data.id\<close>
  that is not a string.
\<close>

definition forward :: "string \<Rightarrow> json \<Rightarrow> server \<Rightarrow> server" where
  "forward cid data st =
     (case get_field data ''id'' of
        Inr (Some (JStr to)) \<Rightarrow>
          (case connections st to of
             None \<Rightarrow> st
           | Some peer \<Rightarrow> ws_send peer (set_field data ''id'' (JStr cid)) st)
      | _ \<Rightarrow> st)"

text \<open>
  \<open>ws.on('message', ...)\<close> of the connection \<open>w\<close> with id \<open>id\<close>. The argument \<open>parsed\<close> is
  the outcome of \<open>JSON.parse(message)\<close>, \<open>None\<close> when it throws. The result is \<open>Inl\<close> when
  the handler itself throws: \<open>data.id\<close> on \<open>null\<close> is outside every \<open>try\<close>.
\<close>

definition on_message :: "sdputils \<Rightarrow> string \<Rightarrow> ws \<Rightarrow> json option \<Rightarrow> server \<Rightarrow> exn + server" where
  "on_message U cid w parsed st =
     (case parsed of
        None \<Rightarrow> Inr st
      | Some data \<Rightarrow>
          (case get_field data ''id'' of
             Inl e \<Rightarrow> Inl e
           | Inr to \<Rightarrow>
               if \<not> truthy to then Inr st
               else if get_field data ''type'' = Inr (Some (JStr ''offer''))
               then (case inspect_offer U data of
                       Inl a \<Rightarrow> Inr (ws_terminate w st)
                     | Inr data' \<Rightarrow> Inr (forward cid data' st))
               else Inr (forward cid data st)))"

text \<open>
  The socket delivers an event to the handlers installed on it; a socket on which
  \<open>on_connection\<close> returned early has none.
\<close>

definition message_event :: "sdputils \<Rightarrow> ws \<Rightarrow> json option \<Rightarrow> server \<Rightarrow> exn + server" where
  "message_event U w parsed st =
     (case listeners st w of
        None \<Rightarrow> Inr st
      | Some cid \<Rightarrow> on_message U cid w parsed st)"

definition close_event :: "ws \<Rightarrow> server \<Rightarrow> server" where
  "close_event w st =
     (case listeners st w of
        None \<Rightarrow> st
      | Some cid \<Rightarrow> on_close cid st)"

subsection \<open>The functions of the sdp package\<close>

text \<open>
  Modelled from the spec: the \<open>sdp\<close> package (\<open>SDPUtils\<close>) is missing from the sources.
  The spec says of it that it splits a description into the session part and the media
  sections, tells the kind of a media section, finds the lines of a section that start
  with a prefix, and parses the URI of an extension line. The definitions follow the
  package's functions of these names; they serve to run the handler on concrete
  descriptions.
\<close>

text \<open>
  \<open>String.prototype.trim\<close> strips white space and line terminators at both ends: the
  code points 9 to 13, 32, 160, 0x1680, 0x2000 to 0x200A, 0x2028, 0x2029, 0x202F, 0x205F,
  0x3000 and 0xFEFF, here in UTF-8.
\<close>

definition whitespace :: "string list" where
  "whitespace =
     [[CHR 0x09], [CHR 0x0A], [CHR 0x0B], [CHR 0x0C], [CHR 0x0D], [CHR 0x20],
      [CHR 0xC2, CHR 0xA0],
      [CHR 0xE1, CHR 0x9A, CHR 0x80],
      [CHR 0xE2, CHR 0x80, CHR 0x80], [CHR 0xE2, CHR 0x80, CHR 0x81],
      [CHR 0xE2, CHR 0x80, CHR 0x82], [CHR 0xE2, CHR 0x80, CHR 0x83],
      [CHR 0xE2, CHR 0x80, CHR 0x84], [CHR 0xE2, CHR 0x80, CHR 0x85],
      [CHR 0xE2, CHR 0x80, CHR 0x86], [CHR 0xE2, CHR 0x80, CHR 0x87],
      [CHR 0xE2, CHR 0x80, CHR 0x88], [CHR 0xE2, CHR 0x80, CHR 0x89],
      [CHR 0xE2, CHR 0x80, CHR 0x8A],
      [CHR 0xE2, CHR 0x80, CHR 0xA8], [CHR 0xE2, CHR 0x80, CHR 0xA9],
      [CHR 0xE2, CHR 0x80, CHR 0xAF],
      [CHR 0xE2, CHR 0x81, CHR 0x9F],
      [CHR 0xE3, CHR 0x80, CHR 0x80],
      [CHR 0xEF, CHR 0xBB, CHR 0xBF]]"

text \<open>The number of bytes of the sequence of \<open>seqs\<close> that \<open>s\<close> starts with, 0 if there is none.\<close>

definition leading :: "string list \<Rightarrow> string \<Rightarrow> nat" where
  "leading seqs s = (case find (\<lambda>q. prefix q s) seqs of None \<Rightarrow> 0 | Some q \<Rightarrow> length q)"

function strip :: "string list \<Rightarrow> string \<Rightarrow> string" where
  "strip seqs s = (if leading seqs s = 0 then s else strip seqs (drop (leading seqs s) s))"
  by pat_completeness auto
termination
proof (relation "measure (\<lambda>(seqs, s). length s)")
  fix seqs s
  assume "leading seqs s \<noteq> 0"
  then obtain q where q: "find (\<lambda>q. prefix q s) seqs = Some q" and "q \<noteq> []"
    by (auto simp: leading_def split: option.splits)
  from q have "prefix q s"
    by (auto simp: find_Some_iff)
  moreover from q have "leading seqs s = length q"
    by (simp add: leading_def)
  ultimately have "prefix q s" and "leading seqs s = length q" .
  with \<open>q \<noteq> []\<close> have "s \<noteq> []" and "0 < leading seqs s"
    by auto
  then show "((seqs, drop (leading seqs s) s), (seqs, s)) \<in> measure (\<lambda>(seqs, s). length s)"
    by simp
qed simp

definition trim :: "string \<Rightarrow> string" where
  "trim s = rev (strip (map rev whitespace) (rev (strip whitespace s)))"

text \<open>
  \<open>s.split(sep)\<close> with a string separator. Every separator of the package is a non-empty
  constant; for the empty separator, which would cut between all code units, the pieces
  are the single bytes.
\<close>

function split_from :: "string \<Rightarrow> string \<Rightarrow> string \<Rightarrow> string list" where
  "split_from sep acc [] = [rev acc]"
| "split_from sep acc (c # cs) =
     (if sep \<noteq> [] \<and> prefix sep (c # cs)
      then rev acc # split_from sep [] (drop (length sep) (c # cs))
      else split_from sep (c # acc) cs)"
  by pat_completeness auto
termination
  by (relation "measure (\<lambda>(sep, acc, s). length s)") auto

definition split_str :: "string \<Rightarrow> string \<Rightarrow> string list" where
  "split_str s sep = (if sep = [] then map (\<lambda>c. [c]) s else split_from sep [] s)"

text \<open>\<open>blob.trim().split('\n').map(line => line.trim())\<close>.\<close>

definition splitLines :: "string \<Rightarrow> string list" where
  "splitLines blob = map trim (split_str (trim blob) LF)"

text \<open>
  \<open>blob.split('\nm=').map((part, index) => (index > 0 ? 'm=' + part : part).trim() + '\r\n')\<close>;
  a \<open>blob\<close> that is not a string has no \<open>split\<close> method.
\<close>

definition sdp_splitSections :: "jsval \<Rightarrow> exn + string list" where
  "sdp_splitSections blob =
     (case blob of
        Some (JStr s) \<Rightarrow>
          (case split_str s (LF @ ''m='') of
             [] \<Rightarrow> Inr []
           | part # parts \<Rightarrow>
               Inr ((trim part @ CRLF) # map (\<lambda>part. trim (''m='' @ part) @ CRLF) parts))
      | _ \<Rightarrow> Inl TypeError)"

text \<open>
  \<open>lines[0].split(' ')[0].substring(2)\<close>. At every call the first line starts with \<open>m=\<close>,
  so that the two code units dropped are these two bytes.
\<close>

definition sdp_getKind :: "string \<Rightarrow> exn + string" where
  "sdp_getKind mediaSection =
     (case splitLines mediaSection of
        [] \<Rightarrow> Inl TypeError
      | line # lines \<Rightarrow>
          (case split_str line '' '' of
             [] \<Rightarrow> Inl TypeError
           | m # mline \<Rightarrow> Inr (drop 2 m)))"

text \<open>\<open>splitLines(blob).filter(line => line.indexOf(prefix) === 0)\<close>.\<close>

definition sdp_matchPrefix :: "string \<Rightarrow> string \<Rightarrow> exn + string list" where
  "sdp_matchPrefix blob p = Inr (filter (prefix p) (splitLines blob))"

text \<open>
  \<open>line.substring(9).split(' ')\<close>, of which \<open>parts[1]\<close> is the URI, undefined when there is
  no second part. The line starts with the nine bytes of \<open>a=extmap:\<close> at every call.
\<close>

definition sdp_parseExtmap :: "string \<Rightarrow> exn + extmap" where
  "sdp_parseExtmap line =
     (case split_str (drop 9 line) '' '' of
        p0 # p1 # parts \<Rightarrow> Inr \<lparr>uri = Some (JStr p1)\<rparr>
      | _ \<Rightarrow> Inr \<lparr>uri = None\<rparr>)"

definition SDPUtils :: sdputils where
  "SDPUtils =
     \<lparr>splitSections = sdp_splitSections, getKind = sdp_getKind,
      matchPrefix = sdp_matchPrefix, parseExtmap = sdp_parseExtmap\<rparr>"

subsection \<open>The JSON text of a message\<close>







































subsection \<open>Example runs\<close>

text \<open>The relay after two clients have connected, on the sockets 1 and 2.\<close>

definition start :: server where
  "start = \<lparr>connections = Map.empty, listeners = Map.empty, trace = []\<rparr>"

definition relay_AB :: server where
  "relay_AB = on_connection ''B1'' 2 (on_connection ''A1'' 1 start)"

text \<open>Lines of a session description.\<close>

definition m_audio :: string where
  "m_audio = ''m=audio 9 UDP/TLS/RTP/SAVPF 111''"

definition m_video :: string where
  "m_video = ''m=video 9 UDP/TLS/RTP/SAVPF 96''"

definition m_application :: string where
  "m_application = ''m=application 9 UDP/DTLS/SCTP webrtc-datachannel''"

definition extmap_timing :: string where
  "extmap_timing = ''a=extmap:3 http://www.webrtc.org/experiments/rtp-hdrext/video-timing''"

definition extmap_level :: string where
  "extmap_level = ''a=extmap:1 urn:ietf:params:rtp-hdrext:ssrc-audio-level''"

definition extmap_toffset :: string where
  "extmap_toffset = ''a=extmap:2 urn:ietf:params:rtp-hdrext:toffset''"

text \<open>Envelopes: an offer, an offer that has no \<open>sdp\<close> property, and a candidate.\<close>

definition offer :: "string \<Rightarrow> string \<Rightarrow> json" where
  "offer to sdp = JObj [(''id'', JStr to), (''type'', JStr ''offer''), (''sdp'', JStr sdp)]"

definition offer_no_sdp :: json where
  "offer_no_sdp = JObj [(''id'', JStr ''B1''), (''type'', JStr ''offer'')]"

definition candidate :: "json \<Rightarrow> json" where
  "candidate to =
     JObj [(''type'', JStr ''candidate''), (''id'', to),
           (''candidate'', JStr ''candidate:1 1 udp 2122260223 192.0.2.1 54321 typ host'')]"

text \<open>
  A description whose session part and whose video section both carry the extension
  line for video-timing, with CRLF terminators, and what the relay forwards for it.
\<close>

definition sdp_session_extmap :: string where
  "sdp_session_extmap =
     ''v=0'' @ CRLF @ extmap_timing @ CRLF @ m_video @ CRLF @ extmap_timing @ CRLF"

definition sdp_session_extmap_forwarded :: string where
  "sdp_session_extmap_forwarded = ''v=0'' @ CRLF @ m_video @ CRLF @ extmap_timing @ CRLF"

text \<open>
  Descriptions whose video section alone carries the extension line for video-timing,
  once with CRLF and once with LF terminators.
\<close>

definition sdp_video_timing_crlf :: string where
  "sdp_video_timing_crlf =
     ''v=0'' @ CRLF @ m_audio @ CRLF @ m_video @ CRLF @ extmap_timing @ CRLF
       @ ''a=sendrecv'' @ CRLF"

definition sdp_video_timing_lf :: string where
  "sdp_video_timing_lf =
     ''v=0'' @ LF @ m_audio @ LF @ m_video @ LF @ extmap_timing @ LF @ ''a=sendrecv'' @ LF"

text \<open>A description with an audio and a video section and no extension of the denylist.\<close>

definition sdp_clean :: string where
  "sdp_clean =
     ''v=0'' @ LF @ m_audio @ LF @ extmap_level @ LF @ m_video @ LF @ extmap_toffset @ LF"

text \<open>A description with a data channel section after the audio section.\<close>

definition sdp_application :: string where
  "sdp_application = ''v=0'' @ CRLF @ m_audio @ CRLF @ m_application @ CRLF"

text \<open>An offer with a data channel section and no \<open>id\<close>.\<close>

definition offer_application_no_id :: json where
  "offer_application_no_id = JObj [(''type'', JStr ''offer''), (''sdp'', JStr sdp_application)]"

text \<open>A description that starts with a data channel section, with no session part.\<close>

definition sdp_application_first :: string where
  "sdp_application_first = m_application @ CRLF @ ''a=sctp-port:5000'' @ CRLF"

text \<open>
  A description in which the text of the extension line for video-timing stands between
  the \<open>m\<close> and the \<open>=\<close> of what becomes a data channel section once that text is removed.
\<close>

definition sdp_smuggle :: string where
  "sdp_smuggle =
     ''v=0'' @ CRLF @ m_audio @ CRLF @ extmap_timing @ LF
       @ ''m'' @ extmap_timing @ CRLF @ drop 1 m_application @ CRLF"





section \<open>Properties\<close>

subsection \<open>Properties and the inspection of an offer\<close>

lemma relay_AB_connections:
  "connections relay_AB = [''A1'' \<mapsto> 1, ''B1'' \<mapsto> 2]"
  by (simp add: relay_AB_def start_def on_connection_def install_listeners_def ws_send_def
      connections_set_def)

lemma truthy_id_obj:
  assumes "get_field data ''id'' = Inr to" and "truthy to"
  shows "\<exists>kvs. data = JObj kvs"
  using assms by (cases data) auto


text \<open>Removing a line succeeds on an object with a string \<open>sdp\<close> and rewrites that property.\<close>

lemma remove_line_obj:
  assumes "remove_line line data = Inr data'"
  shows "\<exists>kvs s. data = JObj kvs \<and> map_of kvs ''sdp'' = Some (JStr s) \<and>
           data' = JObj (AList.update ''sdp''
                     (JStr (replace (replace s (line @ CRLF) []) (line @ LF) [])) kvs)"
proof (cases data)
  case (JObj kvs)
  with assms show ?thesis
    by (auto simp: remove_line_def Let_def update_conv' split: option.splits json.splits sum.splits)
qed (use assms in \<open>simp_all add: remove_line_def\<close>)

lemma remove_line_frame:
  assumes "remove_line line data = Inr data'" and "k \<noteq> ''sdp''"
  shows "get_field data' k = get_field data k"
  using remove_line_obj [OF assms(1)] assms(2) by (auto simp: update_conv')

lemma forEach_extension_frame:
  "forEach_extension U lines data = Inr data' \<Longrightarrow> k \<noteq> ''sdp'' \<Longrightarrow>
     get_field data' k = get_field data k"
proof (induction lines arbitrary: data)
  case Nil
  then show ?case by simp
next
  case (Cons line lines)
  then show ?case
    by (auto split: sum.splits if_splits dest: remove_line_frame)
qed

lemma forEach_extension_parsed:
  "forEach_extension U lines data = Inr data' \<Longrightarrow> line \<in> set lines \<Longrightarrow>
     \<exists>x. parseExtmap U line = Inr x"
  by (induction lines arbitrary: data) (auto split: sum.splits if_splits)

lemma forEach_extension_clean:
  "\<forall>line\<in>set lines. \<exists>x. parseExtmap U line = Inr x \<and>
       \<not> array_includes extensionsToFilter (uri x)
     \<Longrightarrow> forEach_extension U lines data = Inr data"
  by (induction lines) auto

lemma inspect_sections_frame:
  "inspect_sections U sections data = Inr data' \<Longrightarrow> k \<noteq> ''sdp'' \<Longrightarrow>
     get_field data' k = get_field data k"
proof (induction sections arbitrary: data)
  case Nil
  then show ?case by simp
next
  case (Cons sec secs)
  then show ?case
    by (auto split: sum.splits if_splits dest: forEach_extension_frame)
qed

text \<open>
  When the loop over the sections runs to its end, every section was of an allowed kind
  and every call of the package on it returned.
\<close>

lemma inspect_sections_passed:
  "inspect_sections U sections data = Inr data' \<Longrightarrow> sec \<in> set sections \<Longrightarrow>
     (\<exists>kind. getKind U sec = Inr kind \<and> kind \<in> {''audio'', ''video''}) \<and>
     (\<exists>extensions. matchPrefix U sec ''a=extmap:'' = Inr extensions \<and>
        (\<forall>line\<in>set extensions. \<exists>x. parseExtmap U line = Inr x))"
proof (induction sections arbitrary: data)
  case Nil
  then show ?case by simp
next
  case (Cons s secs)
  then show ?case
    by (auto split: sum.splits if_splits dest: forEach_extension_parsed)
qed

lemma inspect_sections_clean:
  "\<forall>sec\<in>set sections.
      (\<exists>kind. getKind U sec = Inr kind \<and> kind \<in> {''audio'', ''video''}) \<and>
      (\<exists>extensions. matchPrefix U sec ''a=extmap:'' = Inr extensions \<and>
         (\<forall>line\<in>set extensions. \<exists>x. parseExtmap U line = Inr x \<and>
                \<not> array_includes extensionsToFilter (uri x)))
     \<Longrightarrow> inspect_sections U sections data = Inr data"
proof (induction sections)
  case Nil
  then show ?case by simp
next
  case (Cons s secs)
  then show ?case
    by (auto simp: forEach_extension_clean)
qed

lemma inspect_offer_frame:
  "inspect_offer U data = Inr data' \<Longrightarrow> k \<noteq> ''sdp'' \<Longrightarrow> get_field data' k = get_field data k"
  by (auto simp: inspect_offer_def split: sum.splits dest: inspect_sections_frame)

lemma inspect_offer_id:
  "inspect_offer U data = Inr data' \<Longrightarrow> get_field data' ''id'' = get_field data ''id''"
  by (rule inspect_offer_frame) simp_all

lemma inspect_offer_passed:
  assumes "inspect_offer U data = Inr data'"
    and "get_field data ''sdp'' = Inr sdp" and "splitSections U sdp = Inr sections"
    and "sec \<in> set (tl sections)"
  shows "(\<exists>kind. getKind U sec = Inr kind \<and> kind \<in> {''audio'', ''video''}) \<and>
     (\<exists>extensions. matchPrefix U sec ''a=extmap:'' = Inr extensions \<and>
        (\<forall>line\<in>set extensions. \<exists>x. parseExtmap U line = Inr x))"
proof -
  from assms(1-3) have "inspect_sections U (tl sections) data = Inr data'"
    by (simp add: inspect_offer_def)
  from inspect_sections_passed [OF this assms(4)] show ?thesis .
qed

subsection \<open>The two paths of the message handler\<close>

lemma on_message_offer:
  assumes "get_field data ''id'' = Inr to" and "truthy to"
    and "get_field data ''type'' = Inr (Some (JStr ''offer''))"
  shows "on_message U cid w (Some data) st =
           (case inspect_offer U data of
              Inl a \<Rightarrow> Inr (ws_terminate w st)
            | Inr data' \<Rightarrow> Inr (forward cid data' st))"
  using assms by (simp add: on_message_def)

lemma on_message_other:
  assumes "get_field data ''id'' = Inr to" and "truthy to"
    and "get_field data ''type'' \<noteq> Inr (Some (JStr ''offer''))"
  shows "on_message U cid w (Some data) st = Inr (forward cid data st)"
  using assms by (simp add: on_message_def)

text \<open>A message that is not JSON is dropped; the message \<open>null\<close> makes the handler throw.\<close>

lemma on_message_invalid_json:
  "on_message U cid w None st = Inr st"
  by (simp add: on_message_def)

lemma on_message_null_throws:
  "on_message U cid w (Some JNull) st = Inl TypeError"
  by (simp add: on_message_def)

text \<open>
  A socket that was closed as a duplicate has no handlers: its close event leaves the
  registry as it is.
\<close>

lemma duplicate_close_event:
  assumes "connections st cid = Some old" and "listeners st w = None"
  shows "close_event w (on_connection cid w st) = on_connection cid w st"
  using assms by (simp add: close_event_def on_connection_def ws_close_def)

subsection \<open>Runs of the inspection on the example descriptions\<close>

text \<open>
  Where the extension line occurs in the video section only, the relay removes it, with
  either terminator.
\<close>

lemma denylisted_line_removed_examples:
  "inspect_offer SDPUtils (offer ''B1'' sdp_video_timing_crlf) =
     Inr (offer ''B1'' (''v=0'' @ CRLF @ m_audio @ CRLF @ m_video @ CRLF @ ''a=sendrecv'' @ CRLF))"
  "inspect_offer SDPUtils (offer ''B1'' sdp_video_timing_lf) =
     Inr (offer ''B1'' (''v=0'' @ LF @ m_audio @ LF @ m_video @ LF @ ''a=sendrecv'' @ LF))"
  by code_simp+

text \<open>
  A space between the URI and the terminator: the package trims the line it returns, the
  trimmed line followed by a terminator does not occur in the description, and the line
  stays.
\<close>

lemma trailing_space_line_stays:
  "inspect_offer SDPUtils
     (offer ''B1'' (''v=0'' @ LF @ m_video @ LF @ extmap_timing @ '' '' @ LF)) =
   Inr (offer ''B1'' (''v=0'' @ LF @ m_video @ LF @ extmap_timing @ '' '' @ LF))"
  by code_simp

text \<open>
  Removing the text of the line can join what stood around it: of the description below
  the inspection leaves the description with the data channel section, and passes it.
\<close>

lemma line_removal_builds_application_section:
  "inspect_offer SDPUtils (offer ''B1'' sdp_smuggle) = Inr (offer ''B1'' sdp_application)"
  by code_simp

section \<open>The claims\<close>

text \<open>
  C1. An offer whose description contains, in a media section, an extension line with a
  URI of the denylist is forwarded with exactly that line and its terminator removed.
  The handler removes the first occurrence of the line's text in the whole description,
  which need not be the line of the media section. For the offer below, sent by A1 to B1,
  the session part carries the same line as the video section: the relay removes the line
  of the session part and forwards a description whose video section still has the
  denylisted extension, which is not the description the claim asks for.
\<close>

theorem session_extmap_line_survives:
  "on_message SDPUtils ''A1'' 1 (Some (offer ''B1'' sdp_session_extmap)) relay_AB =
     Inr (relay_AB\<lparr>trace := trace relay_AB @
            [WsSend 2 (offer ''A1'' sdp_session_extmap_forwarded)]\<rparr>) \<and>
   sdp_session_extmap_forwarded \<noteq> ''v=0'' @ CRLF @ extmap_timing @ CRLF @ m_video @ CRLF \<and>
   splitSections SDPUtils (Some (JStr sdp_session_extmap_forwarded)) =
     Inr [''v=0'' @ CRLF, m_video @ CRLF @ extmap_timing @ CRLF] \<and>
   matchPrefix SDPUtils (m_video @ CRLF @ extmap_timing @ CRLF) ''a=extmap:'' =
     Inr [extmap_timing] \<and>
   parseExtmap SDPUtils extmap_timing =
     Inr \<lparr>uri = Some (JStr ''http://www.webrtc.org/experiments/rtp-hdrext/video-timing'')\<rparr>"
proof -
  have "inspect_offer SDPUtils (offer ''B1'' sdp_session_extmap) =
      Inr (offer ''B1'' sdp_session_extmap_forwarded)"
    by code_simp
  then have "on_message SDPUtils ''A1'' 1 (Some (offer ''B1'' sdp_session_extmap)) relay_AB =
     Inr (relay_AB\<lparr>trace := trace relay_AB @
            [WsSend 2 (offer ''A1'' sdp_session_extmap_forwarded)]\<rparr>)"
    by (simp add: on_message_def forward_def ws_send_def offer_def relay_AB_connections)
  moreover have "sdp_session_extmap_forwarded \<noteq>
      ''v=0'' @ CRLF @ extmap_timing @ CRLF @ m_video @ CRLF"
    by code_simp
  moreover have "splitSections SDPUtils (Some (JStr sdp_session_extmap_forwarded)) =
     Inr [''v=0'' @ CRLF, m_video @ CRLF @ extmap_timing @ CRLF]"
    by code_simp
  moreover have "matchPrefix SDPUtils (m_video @ CRLF @ extmap_timing @ CRLF) ''a=extmap:'' =
     Inr [extmap_timing]"
    by code_simp
  moreover have "parseExtmap SDPUtils extmap_timing =
     Inr \<lparr>uri = Some (JStr ''http://www.webrtc.org/experiments/rtp-hdrext/video-timing'')\<rparr>"
    by code_simp
  ultimately show ?thesis
    by blast
qed

text \<open>
  C2. An offer whose description has a media section of a kind other than audio and
  video is to terminate the sender and to reach no peer. The relay does otherwise in two
  cases. An offer that has no \<open>id\<close> is dropped before the inspection, and the sender's
  socket is left alone. And the first part of a description is dropped as the session part,
  whatever it is: a description that starts with a data channel section is sent on to the
  peer.
\<close>

theorem application_section_not_always_rejected:
  "on_message SDPUtils ''A1'' 1 (Some offer_application_no_id) relay_AB = Inr relay_AB \<and>
   splitSections SDPUtils (Some (JStr sdp_application_first)) = Inr [sdp_application_first] \<and>
   getKind SDPUtils sdp_application_first = Inr ''application'' \<and>
   on_message SDPUtils ''A1'' 1 (Some (offer ''B1'' sdp_application_first)) relay_AB =
     Inr (relay_AB\<lparr>trace := trace relay_AB @ [WsSend 2 (offer ''A1'' sdp_application_first)]\<rparr>)"
proof -
  have "on_message SDPUtils ''A1'' 1 (Some offer_application_no_id) relay_AB = Inr relay_AB"
    by (simp add: on_message_def offer_application_no_id_def)
  moreover have "splitSections SDPUtils (Some (JStr sdp_application_first)) =
      Inr [sdp_application_first]"
    by code_simp
  moreover have "getKind SDPUtils sdp_application_first = Inr ''application''"
    by code_simp
  moreover have "inspect_offer SDPUtils (offer ''B1'' sdp_application_first) =
      Inr (offer ''B1'' sdp_application_first)"
    by code_simp
  then have "on_message SDPUtils ''A1'' 1 (Some (offer ''B1'' sdp_application_first)) relay_AB =
     Inr (relay_AB\<lparr>trace := trace relay_AB @ [WsSend 2 (offer ''A1'' sdp_application_first)]\<rparr>)"
    by (simp add: on_message_def forward_def ws_send_def offer_def relay_AB_connections)
  ultimately show ?thesis
    by blast
qed

text \<open>
  C2, as amended. An offer with a destination id whose description has, after its first
  part, a media section of a kind other than audio and video: the sender's socket is
  terminated, and this is the only call the handler makes, so that nothing is sent to any
  peer. The registry is unchanged. This holds for every implementation of the package,
  also when a call on an earlier section throws.
\<close>

theorem disallowed_kind_terminates:
  assumes "get_field data ''id'' = Inr to" and "truthy to"
    and "get_field data ''type'' = Inr (Some (JStr ''offer''))"
    and "get_field data ''sdp'' = Inr sdp" and "splitSections U sdp = Inr sections"
    and "sec \<in> set (tl sections)" and "getKind U sec = Inr kind"
    and "kind \<notin> {''audio'', ''video''}"
  shows "on_message U cid w (Some data) st = Inr (ws_terminate w st) \<and>
         connections (ws_terminate w st) = connections st \<and>
         trace (ws_terminate w st) = trace st @ [WsTerminate w]"
proof -
  have "\<exists>a. inspect_offer U data = Inl a"
  proof (cases "inspect_offer U data")
    case (Inr data')
    from inspect_offer_passed [OF Inr assms(4,5,6)] assms(7,8) show ?thesis
      by auto
  qed simp
  with on_message_offer [OF assms(1-3)] show ?thesis
    by (auto simp: ws_terminate_def)
qed

theorem disallowed_kind_terminates_witness:
  "on_message SDPUtils ''A1'' 1 (Some (offer ''B1'' sdp_application)) relay_AB =
     Inr (ws_terminate 1 relay_AB) \<and>
   trace (ws_terminate 1 relay_AB) = trace relay_AB @ [WsTerminate 1]"
proof -
  let ?a = "m_application @ CRLF"
  have split: "splitSections SDPUtils (Some (JStr sdp_application)) =
      Inr [''v=0'' @ CRLF, m_audio @ CRLF, ?a]"
    by code_simp
  have kind: "getKind SDPUtils ?a = Inr ''application''"
    by code_simp
  show ?thesis
    using disallowed_kind_terminates [of "offer ''B1'' sdp_application" "Some (JStr ''B1'')"
        "Some (JStr sdp_application)" SDPUtils "[''v=0'' @ CRLF, m_audio @ CRLF, ?a]" ?a
        "''application''" "''A1''" 1 relay_AB]
    by (simp add: split kind offer_def)
qed




text \<open>
  C4. A new connection whose generated id is already in the registry is to be terminated
  by force, with no closing handshake. The handler calls \<open>ws.close()\<close>, which starts the
  closing handshake, and not \<open>ws.terminate()\<close>: in the relay with A1 and B1 connected, a
  third socket that is given the id A1 is closed, not terminated.
\<close>

theorem duplicate_id_not_terminated:
  "connections relay_AB ''A1'' = Some 1 \<and>
   trace (on_connection ''A1'' 3 relay_AB) = trace relay_AB @ [WsClose 3] \<and>
   WsTerminate 3 \<notin> set (trace (on_connection ''A1'' 3 relay_AB))"
  by (simp add: relay_AB_def start_def on_connection_def install_listeners_def ws_send_def
      connections_set_def ws_close_def)

text \<open>
  C4, as amended. A new connection whose generated id is already in the registry leaves
  the registry as it is, gets no handlers and no message, and is closed with
  \<open>ws.close()\<close>, the only call made.
\<close>

theorem duplicate_id_closed:
  assumes "connections st cid = Some old"
  shows "connections (on_connection cid w st) = connections st \<and>
         listeners (on_connection cid w st) = listeners st \<and>
         trace (on_connection cid w st) = trace st @ [WsClose w] \<and>
         sent_to w (trace (on_connection cid w st)) = sent_to w (trace st)"
proof -
  have "sent_to w (tr @ [WsClose w]) = sent_to w tr" for tr
    by (induction w tr rule: sent_to.induct) simp_all
  with assms show ?thesis
    by (simp add: on_connection_def ws_close_def)
qed

theorem duplicate_id_closed_witness:
  "connections relay_AB ''A1'' = Some 1 \<and>
   connections (on_connection ''A1'' 3 relay_AB) ''A1'' = Some 1 \<and>
   listeners (on_connection ''A1'' 3 relay_AB) 3 = None \<and>
   trace (on_connection ''A1'' 3 relay_AB) = trace relay_AB @ [WsClose 3]"
proof -
  have h: "connections relay_AB ''A1'' = Some 1"
    by (simp add: relay_AB_connections)
  have l: "listeners relay_AB 3 = None"
    by (simp add: relay_AB_def start_def on_connection_def install_listeners_def ws_send_def
      connections_set_def)
  show ?thesis
    using h l duplicate_id_closed [OF h, of 3] by simp
qed

text \<open>
  C5. An offer with a destination id on whose description a step of the parsing throws
  (the splitting into sections, the kind of a media section, the search for the extension
  lines of a media section, or the parsing of one of these lines): the sender's socket is
  terminated, and this is the only call the handler makes. The registry is unchanged.
\<close>

theorem parse_failure_terminates:
  assumes "get_field data ''id'' = Inr to" and "truthy to"
    and "get_field data ''type'' = Inr (Some (JStr ''offer''))"
    and "get_field data ''sdp'' = Inr sdp"
    and "splitSections U sdp = Inl e \<or>
         (\<exists>sections sec. splitSections U sdp = Inr sections \<and> sec \<in> set (tl sections) \<and>
            (getKind U sec = Inl e \<or> matchPrefix U sec ''a=extmap:'' = Inl e \<or>
             (\<exists>extensions line. matchPrefix U sec ''a=extmap:'' = Inr extensions \<and>
                line \<in> set extensions \<and> parseExtmap U line = Inl e)))"
  shows "on_message U cid w (Some data) st = Inr (ws_terminate w st) \<and>
         connections (ws_terminate w st) = connections st \<and>
         trace (ws_terminate w st) = trace st @ [WsTerminate w]"
proof -
  have "\<exists>a. inspect_offer U data = Inl a"
  proof (cases "inspect_offer U data")
    case (Inr data')
    from assms(5) show ?thesis
    proof
      assume "splitSections U sdp = Inl e"
      with Inr assms(4) show ?thesis
        by (simp add: inspect_offer_def)
    next
      assume "\<exists>sections sec. splitSections U sdp = Inr sections \<and> sec \<in> set (tl sections) \<and>
            (getKind U sec = Inl e \<or> matchPrefix U sec ''a=extmap:'' = Inl e \<or>
             (\<exists>extensions line. matchPrefix U sec ''a=extmap:'' = Inr extensions \<and>
                line \<in> set extensions \<and> parseExtmap U line = Inl e))"
      then obtain sections sec
        where s: "splitSections U sdp = Inr sections" "sec \<in> set (tl sections)"
        and f: "getKind U sec = Inl e \<or> matchPrefix U sec ''a=extmap:'' = Inl e \<or>
             (\<exists>extensions line. matchPrefix U sec ''a=extmap:'' = Inr extensions \<and>
                line \<in> set extensions \<and> parseExtmap U line = Inl e)"
        by blast
      from inspect_offer_passed [OF Inr assms(4) s] f have False
        by fastforce
      then show ?thesis ..
    qed
  qed simp
  with on_message_offer [OF assms(1-3)] show ?thesis
    by (auto simp: ws_terminate_def)
qed

theorem parse_failure_terminates_witness:
  "splitSections SDPUtils None = Inl TypeError \<and>
   on_message SDPUtils ''A1'' 1 (Some offer_no_sdp) relay_AB = Inr (ws_terminate 1 relay_AB)"
proof -
  have split: "splitSections SDPUtils None = Inl TypeError"
    by (simp add: SDPUtils_def sdp_splitSections_def)
  show ?thesis
    using parse_failure_terminates [of offer_no_sdp "Some (JStr ''B1'')" None SDPUtils TypeError
        "''A1''" 1 relay_AB]
    by (simp add: split offer_no_sdp_def)
qed

text \<open>
  C6. A message whose destination id is not in the registry. When the handler reaches
  the lookup, that is, when the message is not an offer or is an offer that passed the
  inspection, the state is unchanged: no call is made, nothing is sent or kept, and the
  sender's socket is left alone. In every case the handler makes no call or terminates the
  sender, so that nothing is sent to anyone.
\<close>

theorem unknown_peer_dropped:
  assumes "get_field data ''id'' = Inr to"
    and "\<forall>s. to = Some (JStr s) \<longrightarrow> connections st s = None"
  shows "(get_field data ''type'' \<noteq> Inr (Some (JStr ''offer'')) \<or>
          (\<exists>data'. inspect_offer U data = Inr data')
            \<longrightarrow> on_message U cid w (Some data) st = Inr st) \<and>
         (on_message U cid w (Some data) st = Inr st \<or>
          on_message U cid w (Some data) st = Inr (ws_terminate w st))"
proof -
  have miss: "forward cid d st = st" if "get_field d ''id'' = Inr to" for d
    using that assms(2)
    by (auto simp: forward_def split: sum.splits option.splits json.splits)
  have other: "on_message U cid w (Some data) st = Inr st"
    if "get_field data ''type'' \<noteq> Inr (Some (JStr ''offer''))"
    using that assms(1) miss [of data] by (simp add: on_message_def)
  have passed: "on_message U cid w (Some data) st = Inr st"
    if "inspect_offer U data = Inr data'" for data'
    using that assms(1) miss [of data] miss [of data'] inspect_offer_id [OF that]
    by (simp add: on_message_def)
  have rejected: "on_message U cid w (Some data) st = Inr st \<or>
      on_message U cid w (Some data) st = Inr (ws_terminate w st)"
    if "inspect_offer U data = Inl a" for a
    using that assms(1) miss [of data] by (simp add: on_message_def)
  show ?thesis
    using other passed rejected by (cases "inspect_offer U data") blast+
qed

theorem unknown_peer_dropped_witness:
  "connections relay_AB ''C1'' = None \<and>
   on_message SDPUtils ''A1'' 1 (Some (candidate (JStr ''C1''))) relay_AB = Inr relay_AB"
  using unknown_peer_dropped [of "candidate (JStr ''C1'')" "Some (JStr ''C1'')" relay_AB
      SDPUtils "''A1''" 1]
  by (simp add: candidate_def relay_AB_connections)

text \<open>
  C7. A new connection whose generated id is not in the registry: the handler stores the
  entry, then sends the hello message with the id, then the iceServers message, and makes
  no other call; these two are what the socket is sent after anything sent to it before.
\<close>

theorem greeting_in_order:
  assumes "connections st cid = None"
  shows "trace (on_connection cid w st) =
           trace st @
           [MapSet cid w,
            WsSend w (JObj [(''type'', JStr ''hello''), (''id'', JStr cid)]),
            WsSend w (JObj [(''type'', JStr ''iceServers''),
                            (''iceServers'',
                             JArr [JObj [(''urls'', JStr ''stun:stun.l.google.com:19302'')]])])] \<and>
         connections (on_connection cid w st) = (connections st)(cid \<mapsto> w) \<and>
         sent_to w (trace (on_connection cid w st)) =
           sent_to w (trace st) @ [hello cid, iceServers]"
proof -
  have "sent_to w (tr @ [MapSet cid w, WsSend w a, WsSend w b]) = sent_to w tr @ [a, b]"
    for tr a b
    by (induction w tr rule: sent_to.induct) simp_all
  with assms show ?thesis
    by (simp add: on_connection_def install_listeners_def ws_send_def connections_set_def
        hello_def iceServers_def)
qed

theorem greeting_in_order_witness:
  "connections start ''A1'' = None \<and>
   trace (on_connection ''A1'' 1 start) =
     [MapSet ''A1'' 1, WsSend 1 (hello ''A1''), WsSend 1 iceServers] \<and>
   connections (on_connection ''A1'' 1 start) ''A1'' = Some 1 \<and>
   sent_to 1 (trace (on_connection ''A1'' 1 start)) = [hello ''A1'', iceServers]"
proof -
  have h: "connections start ''A1'' = None"
    by (simp add: start_def)
  show ?thesis
    using h greeting_in_order [OF h, of 1]
    by (simp add: start_def hello_def iceServers_def)
qed

text \<open>
  C8. An offer with a resolving destination id whose media sections are all audio or
  video and whose extension lines all parse to a URI outside the denylist: the handler's
  only call sends the peer the envelope with \<open>id\<close> set to the sender's id, and the \<open>sdp\<close>
  of what is sent is the \<open>sdp\<close> of the input.
\<close>

theorem clean_offer_identical:
  assumes "get_field data ''id'' = Inr (Some (JStr to))" and "to \<noteq> []"
    and "connections st to = Some peer"
    and "get_field data ''type'' = Inr (Some (JStr ''offer''))"
    and "get_field data ''sdp'' = Inr sdp" and "splitSections U sdp = Inr sections"
    and "\<forall>sec\<in>set (tl sections).
           (\<exists>kind. getKind U sec = Inr kind \<and> kind \<in> {''audio'', ''video''}) \<and>
           (\<exists>extensions. matchPrefix U sec ''a=extmap:'' = Inr extensions \<and>
              (\<forall>line\<in>set extensions. \<exists>x. parseExtmap U line = Inr x \<and>
                 \<not> array_includes extensionsToFilter (uri x)))"
  shows "on_message U cid w (Some data) st =
           Inr (st\<lparr>trace := trace st @ [WsSend peer (set_field data ''id'' (JStr cid))]\<rparr>) \<and>
         get_field (set_field data ''id'' (JStr cid)) ''sdp'' = Inr sdp"
proof -
  from assms(1,2) obtain kvs where kvs: "data = JObj kvs"
    using truthy_id_obj [of data "Some (JStr to)"] by auto
  from assms(5,6) inspect_sections_clean [OF assms(7)]
  have "inspect_offer U data = Inr data"
    by (simp add: inspect_offer_def)
  with on_message_offer [OF assms(1) _ assms(4)] assms(2)
  have "on_message U cid w (Some data) st = Inr (forward cid data st)"
    by simp
  with assms(1,3,5) kvs show ?thesis
    by (simp add: forward_def ws_send_def update_conv')
qed

theorem clean_offer_identical_witness:
  "on_message SDPUtils ''A1'' 1 (Some (offer ''B1'' sdp_clean)) relay_AB =
     Inr (relay_AB\<lparr>trace := trace relay_AB @ [WsSend 2 (offer ''A1'' sdp_clean)]\<rparr>)"
proof -
  let ?s1 = "m_audio @ LF @ extmap_level @ CRLF" and ?s2 = "m_video @ LF @ extmap_toffset @ CRLF"
  have split: "splitSections SDPUtils (Some (JStr sdp_clean)) = Inr [''v=0'' @ CRLF, ?s1, ?s2]"
    by code_simp
  have kinds: "getKind SDPUtils ?s1 = Inr ''audio''" "getKind SDPUtils ?s2 = Inr ''video''"
    by code_simp+
  have lines: "matchPrefix SDPUtils ?s1 ''a=extmap:'' = Inr [extmap_level]"
    "matchPrefix SDPUtils ?s2 ''a=extmap:'' = Inr [extmap_toffset]"
    by code_simp+
  have uris: "parseExtmap SDPUtils extmap_level =
        Inr \<lparr>uri = Some (JStr ''urn:ietf:params:rtp-hdrext:ssrc-audio-level'')\<rparr>"
    "parseExtmap SDPUtils extmap_toffset =
        Inr \<lparr>uri = Some (JStr ''urn:ietf:params:rtp-hdrext:toffset'')\<rparr>"
    by code_simp+
  have allowed:
    "\<not> array_includes extensionsToFilter
         (Some (JStr ''urn:ietf:params:rtp-hdrext:ssrc-audio-level''))"
    "\<not> array_includes extensionsToFilter (Some (JStr ''urn:ietf:params:rtp-hdrext:toffset''))"
    by code_simp+
  show ?thesis
    using clean_offer_identical [of "offer ''B1'' sdp_clean" "''B1''" relay_AB 2
        "Some (JStr sdp_clean)" SDPUtils "[''v=0'' @ CRLF, ?s1, ?s2]" "''A1''" 1]
    by (simp add: split kinds lines uris allowed relay_AB_connections offer_def)
qed

text \<open>
  C9. A message whose \<open>id\<close> is the empty string, 0, false or null leaves the state
  unchanged, whatever the package does: no call is made, on the registry or on any socket.
  This is also the outcome for every message that has no \<open>id\<close>.
\<close>

theorem falsy_id_discarded:
  assumes "get_field data ''id'' = Inr (Some v)"
    and "v \<in> {JStr [], JNum 0, JBool False, JNull}"
  shows "on_message U cid w (Some data) st = Inr st \<and>
         (\<forall>data'. get_field data' ''id'' = Inr None \<longrightarrow>
            on_message U cid w (Some data') st = on_message U cid w (Some data) st)"
proof -
  from assms(2) have "\<not> truthy (Some v)"
    by auto
  with assms(1) have falsy: "on_message U cid w (Some data) st = Inr st"
    by (simp add: on_message_def)
  have "on_message U cid w (Some data') st = Inr st"
    if "get_field data' ''id'' = Inr None" for data'
    using that by (simp add: on_message_def)
  with falsy show ?thesis
    by simp
qed

theorem falsy_id_discarded_witness:
  "on_message SDPUtils ''A1'' 1 (Some (offer [] sdp_application)) relay_AB = Inr relay_AB \<and>
   on_message SDPUtils ''A1'' 1 (Some (candidate (JNum 0))) relay_AB = Inr relay_AB \<and>
   on_message SDPUtils ''A1'' 1 (Some (candidate (JBool False))) relay_AB = Inr relay_AB \<and>
   on_message SDPUtils ''A1'' 1 (Some (candidate JNull)) relay_AB = Inr relay_AB"
proof -
  have "get_field (offer [] sdp_application) ''id'' = Inr (Some (JStr []))"
    and "get_field (candidate (JNum 0)) ''id'' = Inr (Some (JNum 0))"
    and "get_field (candidate (JBool False)) ''id'' = Inr (Some (JBool False))"
    and "get_field (candidate JNull) ''id'' = Inr (Some JNull)"
    by (simp_all add: offer_def candidate_def)
  then show ?thesis
    using falsy_id_discarded [of _ _ SDPUtils "''A1''" 1 relay_AB, THEN conjunct1]
    by blast
qed

text \<open>
  C10. Every envelope a registered connection sends to its own id is to be routed back
  to it. An offer is inspected before the lookup: an offer that A1 sends to its own id
  with a data channel section is not sent back, and A1's socket is terminated.
\<close>

theorem rejected_offer_to_self_not_routed:
  "connections relay_AB ''A1'' = Some 1 \<and>
   get_field (offer ''A1'' sdp_application) ''id'' = Inr (Some (JStr ''A1'')) \<and>
   on_message SDPUtils ''A1'' 1 (Some (offer ''A1'' sdp_application)) relay_AB =
     Inr (ws_terminate 1 relay_AB) \<and>
   trace (ws_terminate 1 relay_AB) = trace relay_AB @ [WsTerminate 1]"
proof -
  have "inspect_offer SDPUtils (offer ''A1'' sdp_application) =
      Inl (UnknownMedia ''application'')"
    by code_simp
  then show ?thesis
    by (simp add: on_message_def offer_def relay_AB_connections ws_terminate_def)
qed

text \<open>
  C10, as amended. An envelope that a registered connection sends to its own id, and that
  is not an offer: the handler's only call sends it back to the sender as it is, its \<open>id\<close>
  being the sender's id already. An offer that passes the inspection is sent back as the
  inspection left it, with the sender's id.
\<close>

theorem self_addressed_routed_back:
  assumes "connections st cid = Some w" and "cid \<noteq> []"
    and "get_field data ''id'' = Inr (Some (JStr cid))"
  shows "(get_field data ''type'' \<noteq> Inr (Some (JStr ''offer'')) \<longrightarrow>
            on_message U cid w (Some data) st = Inr (st\<lparr>trace := trace st @ [WsSend w data]\<rparr>)) \<and>
         (get_field data ''type'' = Inr (Some (JStr ''offer'')) \<longrightarrow>
            (\<forall>data'. inspect_offer U data = Inr data' \<longrightarrow>
               on_message U cid w (Some data) st = Inr (st\<lparr>trace := trace st @ [WsSend w data']\<rparr>) \<and>
               get_field data' ''id'' = Inr (Some (JStr cid))))"
proof -
  have t: "truthy (Some (JStr cid))"
    using assms(2) by simp
  have same: "set_field d ''id'' (JStr cid) = d"
    if "get_field d ''id'' = Inr (Some (JStr cid))" for d
    using that by (cases d) (simp_all add: update_triv)
  have fwd: "forward cid d st = st\<lparr>trace := trace st @ [WsSend w d]\<rparr>"
    if "get_field d ''id'' = Inr (Some (JStr cid))" for d
    using that assms(1) same [OF that] by (simp add: forward_def ws_send_def)
  have other: "on_message U cid w (Some data) st = Inr (st\<lparr>trace := trace st @ [WsSend w data]\<rparr>)"
    if "get_field data ''type'' \<noteq> Inr (Some (JStr ''offer''))"
    using on_message_other [OF assms(3) t that] fwd [OF assms(3)] by simp
  have offered: "on_message U cid w (Some data) st = Inr (st\<lparr>trace := trace st @ [WsSend w data']\<rparr>) \<and>
      get_field data' ''id'' = Inr (Some (JStr cid))"
    if ty: "get_field data ''type'' = Inr (Some (JStr ''offer''))"
      and ins: "inspect_offer U data = Inr data'" for data'
  proof -
    have id': "get_field data' ''id'' = Inr (Some (JStr cid))"
      using inspect_offer_id [OF ins] assms(3) by simp
    with on_message_offer [OF assms(3) t ty] ins fwd [OF id'] show ?thesis
      by simp
  qed
  show ?thesis
  proof (intro conjI impI allI)
    assume "get_field data ''type'' \<noteq> Inr (Some (JStr ''offer''))"
    then show "on_message U cid w (Some data) st = Inr (st\<lparr>trace := trace st @ [WsSend w data]\<rparr>)"
      by (rule other)
  next
    fix data'
    assume "get_field data ''type'' = Inr (Some (JStr ''offer''))"
      and "inspect_offer U data = Inr data'"
    from offered [OF this]
    show "on_message U cid w (Some data) st = Inr (st\<lparr>trace := trace st @ [WsSend w data']\<rparr>)"
      and "get_field data' ''id'' = Inr (Some (JStr cid))"
      by blast+
  qed
qed

theorem self_addressed_routed_back_witness:
  "connections relay_AB ''A1'' = Some 1 \<and>
   on_message SDPUtils ''A1'' 1 (Some (candidate (JStr ''A1''))) relay_AB =
     Inr (relay_AB\<lparr>trace := trace relay_AB @ [WsSend 1 (candidate (JStr ''A1''))]\<rparr>)"
proof -
  have c: "connections relay_AB ''A1'' = Some 1"
    by (simp add: relay_AB_connections)
  have i: "get_field (candidate (JStr ''A1'')) ''id'' = Inr (Some (JStr ''A1''))"
    by (simp add: candidate_def)
  show ?thesis
    using c self_addressed_routed_back [OF c _ i, of SDPUtils]
    by (simp add: candidate_def)
qed

end
